theory Spec2Isabelle
  imports Main
begin

section \<open>Chrono-Insight: the session manager of \<open>main.py\<close>\<close>

text \<open>
  The development embeds the \<open>SessionManager\<close> class of \<open>main.py\<close>, the data loader
  \<open>load_current_data\<close> and the two callbacks that set the mode
  (\<open>update_data_source_indicator\<close> and \<open>handle_file_upload\<close>). Python strings are
  \<open>string\<close>, the session dictionary is a map from identifiers to a record of the stored
  keys, the files on disk are a map from paths to contents.
  Whatever the code obtains from outside (the base64 decoder, the operating system's
  answer to a write, the NLP pipeline, pandas) is a field of the record \<open>env\<close>, so that
  every exception the code can meet is a branch of the model.
\<close>

subsection \<open>Strings and paths\<close>

type_synonym bytes = "char list"

text \<open>\<open>str.lower\<close> on the ASCII letters.\<close>

definition lower_char :: "char \<Rightarrow> char" where
  "lower_char c =
     (case map_of (zip ''ABCDEFGHIJKLMNOPQRSTUVWXYZ'' ''abcdefghijklmnopqrstuvwxyz'') c of
        None \<Rightarrow> c
      | Some l \<Rightarrow> l)"

definition lower :: "string \<Rightarrow> string" where
  "lower s = map lower_char s"

definition startswith :: "string \<Rightarrow> string \<Rightarrow> bool" where
  "startswith s p = (take (length p) s = p)"

definition endswith :: "string \<Rightarrow> string \<Rightarrow> bool" where
  "endswith s suf = (take (length suf) (rev s) = rev suf)"

text \<open>\<open>s.split(c)\<close> for a separator of one character.\<close>

fun split_on :: "char \<Rightarrow> string \<Rightarrow> string list" where
  "split_on c [] = [[]]"
| "split_on c (x # xs) =
     (if x = c then [] # split_on c xs
      else (case split_on c xs of
              [] \<Rightarrow> [[x]]
            | w # ws \<Rightarrow> (x # w) # ws))"

text \<open>\<open>os.path.join\<close> of two components on POSIX.\<close>

definition path_join :: "string \<Rightarrow> string \<Rightarrow> string" where
  "path_join a b =
     (if startswith b ''/'' then b
      else if a = [] \<or> endswith a ''/'' then a @ b
      else a @ ''/'' @ b)"

text \<open>\<open>str(n)\<close> for a length.\<close>

fun str_nat :: "nat \<Rightarrow> string" where
  "str_nat n =
     (if n < 10 then [''0123456789'' ! n]
      else str_nat (n div 10) @ [''0123456789'' ! (n mod 10)])"

declare str_nat.simps [simp del]

subsection \<open>Configuration\<close>

definition BASE_PATH :: string where
  "BASE_PATH = ''/project/workspace/''"

definition DEFAULT_DATA_PATH :: string where
  "DEFAULT_DATA_PATH = BASE_PATH @ ''/default_data''"

definition USER_SESSIONS_PATH :: string where
  "USER_SESSIONS_PATH = BASE_PATH @ ''/user_sessions''"

subsection \<open>Data model\<close>

text \<open>
  One entry of \<open>self.sessions\<close>. The keys \<open>last_updated\<close>, \<open>last_processed\<close> and
  \<open>insight_count\<close> are absent from a new entry and are \<open>None\<close> until the code stores them.
\<close>

record session =
  created_at :: string
  uploaded_files :: "string list"
  processed_files :: "string list"
  session_path :: string
  upload_path :: string
  processed_path :: string
  last_updated :: "string option"
  last_processed :: "string option"
  insight_count :: "nat option"

text \<open>
  The attributes of \<open>SessionManager\<close>. \<open>current_mode\<close> is the string the code stores
  (\<open>"default"\<close>, \<open>"user"\<close>, or whatever the toggle delivers).
\<close>

record manager =
  current_mode :: string
  current_session_id :: "string option"
  sessions :: "string \<rightharpoonup> session"
  has_unprocessed_files :: bool

type_synonym filesystem = "string \<rightharpoonup> bytes"

type_synonym insight = "(string \<times> string) list"

text \<open>A data frame: its columns and its rows; \<open>pd.DataFrame()\<close> has neither.\<close>

type_synonym dataframe = "string list \<times> string list list"

definition empty_frame :: dataframe where
  "empty_frame = ([], [])"

type_synonym frames = "dataframe \<times> dataframe \<times> dataframe \<times> dataframe \<times> dataframe"

text \<open>\<open>df.empty\<close>: one of the two axes has length zero.\<close>

definition frame_empty :: "dataframe \<Rightarrow> bool" where
  "frame_empty df = (fst df = [] \<or> snd df = [])"

text \<open>
  Whether \<open>len(df[column].unique()) if not df.empty else 0\<close> raises: \<open>df[column]\<close> is a
  \<open>KeyError\<close> on a frame that is not empty and has no such column.
\<close>

definition unique_raises :: "dataframe \<Rightarrow> string \<Rightarrow> bool" where
  "unique_raises df column = (\<not> frame_empty df \<and> column \<notin> set (fst df))"

text \<open>
  The collaborators. Where the Python raises, the field gives the error:
  \<open>b64decode\<close> is \<open>None\<close> on \<open>binascii.Error\<close>; \<open>open_wb_error p\<close>, \<open>makedirs_error p\<close> and
  \<open>rmtree_error p\<close> say that the call on path \<open>p\<close> raises; \<open>process_pdfs\<close>,
  \<open>create_nlp_enhanced_dataframes\<close> and \<open>to_csv\<close> return \<open>Inl\<close> of the exception's text;
  \<open>read_csv\<close> is \<open>None\<close> when pandas raises. The files on disk are regular files only
  (directories are not tracked), and a call that raises is taken to leave them as they
  were.
\<close>

record env =
  NLP_AVAILABLE :: bool
  b64decode :: "string \<Rightarrow> bytes option"
  open_wb_error :: "string \<Rightarrow> bool"
  makedirs_error :: "string \<Rightarrow> bool"
  rmtree_error :: "string \<Rightarrow> bool"
  process_pdfs :: "filesystem \<Rightarrow> string \<Rightarrow> string + insight list"
  create_nlp_enhanced_dataframes :: "insight list \<Rightarrow> string + frames"
  to_csv :: "dataframe \<Rightarrow> string \<Rightarrow> string + bytes"
  read_csv :: "bytes \<Rightarrow> dataframe option"

text \<open>The exceptions that leave a method or a callback.\<close>

datatype error = OSError | KeyError

subsection \<open>\<open>SessionManager\<close>\<close>

definition init_manager :: manager where
  "init_manager =
     \<lparr>current_mode = ''default'', current_session_id = None,
      sessions = Map.empty, has_unprocessed_files = False\<rparr>"

text \<open>
  \<open>create_new_session\<close>: \<open>session_id\<close> is the eight characters cut from a fresh UUID and
  \<open>now\<close> the clock's reading, both given by the caller. An exception of
  \<open>os.makedirs\<close> leaves the method before anything is stored.
\<close>

definition create_new_session ::
  "env \<Rightarrow> string \<Rightarrow> string \<Rightarrow> manager \<Rightarrow> error + (string \<times> manager)" where
  "create_new_session e now session_id m =
     (let sp = path_join USER_SESSIONS_PATH (''session_'' @ session_id);
          up = path_join sp ''uploaded_pdfs'';
          pp = path_join sp ''processed_data''
      in if makedirs_error e up then Inl OSError
         else if makedirs_error e pp then Inl OSError
         else Inr (session_id,
           m\<lparr>sessions := (sessions m)(session_id \<mapsto>
                \<lparr>created_at = now, uploaded_files = [], processed_files = [],
                 session_path = sp, upload_path = up, processed_path = pp,
                 last_updated = None, last_processed = None, insight_count = None\<rparr>),
             current_session_id := Some session_id,
             current_mode := ''user'',
             has_unprocessed_files := True\<rparr>))"

text \<open>The body of the \<open>try\<close> in the upload loop: the payload as bytes, or \<open>None\<close> when it raises.\<close>

definition decode_content :: "env \<Rightarrow> string \<Rightarrow> bytes option" where
  "decode_content e content =
     (if startswith content ''data:application/pdf;base64,''
      then (case split_on CHR '','' content of
              _ # base64_data # _ \<Rightarrow> b64decode e base64_data
            | _ \<Rightarrow> None)
      else b64decode e content)"

text \<open>
  The loop over \<open>zip(file_contents, filenames)\<close>, carrying the files on disk and
  \<open>saved_files\<close>.
\<close>

fun save_loop ::
  "env \<Rightarrow> string \<Rightarrow> filesystem \<times> string list \<Rightarrow> (string \<times> string) list
     \<Rightarrow> filesystem \<times> string list" where
  "save_loop e up (fs, saved_files) [] = (fs, saved_files)"
| "save_loop e up (fs, saved_files) ((content, filename) # rest) =
     (if \<not> endswith (lower filename) ''.pdf'' then save_loop e up (fs, saved_files) rest
      else (case decode_content e content of
              None \<Rightarrow> save_loop e up (fs, saved_files) rest
            | Some file_data \<Rightarrow>
                (let file_path = path_join up filename
                 in if open_wb_error e file_path then save_loop e up (fs, saved_files) rest
                    else save_loop e up
                           (fs(file_path \<mapsto> file_data), saved_files @ [filename]) rest)))"

definition add_files_to_session ::
  "env \<Rightarrow> string \<Rightarrow> manager \<Rightarrow> filesystem \<Rightarrow> string \<Rightarrow> string list \<Rightarrow> string list
     \<Rightarrow> manager \<times> filesystem \<times> bool \<times> string" where
  "add_files_to_session e now m fs session_id file_contents filenames =
     (case sessions m session_id of
        None \<Rightarrow> (m, fs, False, ''Session not found'')
      | Some s \<Rightarrow>
          (let (fs', saved_files) = save_loop e (upload_path s) (fs, []) (zip file_contents filenames);
               s' = s\<lparr>uploaded_files := uploaded_files s @ saved_files,
                      last_updated := Some now\<rparr>
           in (m\<lparr>sessions := (sessions m)(session_id \<mapsto> s'),
                 has_unprocessed_files := True\<rparr>,
               fs', True,
               ''Added '' @ str_nat (length saved_files) @ '' files to session'')))"

definition get_session_files :: "manager \<Rightarrow> string \<Rightarrow> string list" where
  "get_session_files m session_id =
     (case sessions m session_id of None \<Rightarrow> [] | Some s \<Rightarrow> uploaded_files s)"

text \<open>The five file names, in the order in which the code writes and checks them.\<close>

definition table_files :: "string list" where
  "table_files =
     [''nlp_ai_insights.csv'', ''nlp_domain_analysis.csv'', ''nlp_temporal_analysis.csv'',
      ''nlp_pattern_analysis.csv'', ''nlp_entity_analysis.csv'']"

text \<open>
  The five \<open>to_csv\<close> statements, one after the other: the first that raises ends the
  sequence, and the files written before it stay on disk.
\<close>

fun write_frames ::
  "env \<Rightarrow> filesystem \<Rightarrow> (dataframe \<times> string) list \<Rightarrow> filesystem \<times> string option" where
  "write_frames e fs [] = (fs, None)"
| "write_frames e fs ((df, path) # rest) =
     (case to_csv e df path of
        Inl err \<Rightarrow> (fs, Some err)
      | Inr data \<Rightarrow> write_frames e (fs(path \<mapsto> data)) rest)"

definition process_session_pdfs ::
  "env \<Rightarrow> string \<Rightarrow> manager \<Rightarrow> filesystem \<Rightarrow> string
     \<Rightarrow> manager \<times> filesystem \<times> bool \<times> string" where
  "process_session_pdfs e now m fs session_id =
     (if \<not> NLP_AVAILABLE e then (m, fs, False, ''NLP processing not available'')
      else (case sessions m session_id of
        None \<Rightarrow> (m, fs, False, ''Session not found'')
      | Some s \<Rightarrow>
         (let pp = processed_path s in
          case process_pdfs e fs (upload_path s) of
            Inl err \<Rightarrow> (m, fs, False, ''Error processing PDFs: '' @ err)
          | Inr all_insights \<Rightarrow>
              if all_insights = [] then (m, fs, False, ''No insights extracted from PDFs'')
              else (case create_nlp_enhanced_dataframes e all_insights of
                Inl err \<Rightarrow> (m, fs, False, ''Error processing PDFs: '' @ err)
              | Inr (insights_df, domain_df, temporal_df, pattern_df, entity_df) \<Rightarrow>
                 (case write_frames e fs
                         [(insights_df, path_join pp ''nlp_ai_insights.csv''),
                          (domain_df, path_join pp ''nlp_domain_analysis.csv''),
                          (temporal_df, path_join pp ''nlp_temporal_analysis.csv''),
                          (pattern_df, path_join pp ''nlp_pattern_analysis.csv''),
                          (entity_df, path_join pp ''nlp_entity_analysis.csv'')] of
                    (fs', Some err) \<Rightarrow> (m, fs', False, ''Error processing PDFs: '' @ err)
                  | (fs', None) \<Rightarrow>
                     (let created_files =
                            filter (\<lambda>filename. fs' (path_join pp filename) \<noteq> None) table_files;
                          s' = s\<lparr>processed_files := created_files,
                                 last_processed := Some now,
                                 insight_count := Some (length all_insights)\<rparr>
                      in (m\<lparr>sessions := (sessions m)(session_id \<mapsto> s'),
                            has_unprocessed_files := False\<rparr>,
                          fs', True,
                          ''Successfully processed '' @ str_nat (length all_insights)
                            @ '' insights'')))))))"

text \<open>\<open>shutil.rmtree\<close>: the directory and everything below it.\<close>

definition rmtree :: "filesystem \<Rightarrow> string \<Rightarrow> filesystem" where
  "rmtree fs p = (\<lambda>q. if q = p \<or> startswith q (p @ ''/'') then None else fs q)"

definition clear_session ::
  "env \<Rightarrow> manager \<Rightarrow> filesystem \<Rightarrow> string \<Rightarrow> manager \<times> filesystem" where
  "clear_session e m fs session_id =
     (let (m1, fs1) =
        (case sessions m session_id of
           None \<Rightarrow> (m, fs)
         | Some s \<Rightarrow>
             (m\<lparr>sessions := (sessions m)(session_id := None)\<rparr>,
              if rmtree_error e (session_path s) then fs else rmtree fs (session_path s)))
      in if current_session_id m1 = Some session_id
         then (m1\<lparr>current_session_id := None, current_mode := ''default'',
                  has_unprocessed_files := False\<rparr>, fs1)
         else (m1, fs1))"

definition switch_to_default :: "manager \<Rightarrow> manager" where
  "switch_to_default m =
     m\<lparr>current_mode := ''default'', current_session_id := None,
       has_unprocessed_files := False\<rparr>"

definition get_current_data_path :: "manager \<Rightarrow> string" where
  "get_current_data_path m =
     (if current_mode m = ''default'' then DEFAULT_DATA_PATH
      else if current_mode m = ''user'' then
        (case current_session_id m of
           None \<Rightarrow> DEFAULT_DATA_PATH
         | Some i \<Rightarrow>
             (case sessions m i of
                None \<Rightarrow> DEFAULT_DATA_PATH
              | Some s \<Rightarrow> processed_path s))
      else DEFAULT_DATA_PATH)"

definition get_processing_status :: "manager \<Rightarrow> string \<Rightarrow> string" where
  "get_processing_status m session_id =
     (case sessions m session_id of
        None \<Rightarrow> ''No active session''
      | Some s \<Rightarrow>
          (let file_count = length (uploaded_files s);
               processed_count = (case insight_count s of None \<Rightarrow> 0 | Some n \<Rightarrow> n)
           in if has_unprocessed_files m
              then ''Ready to process '' @ str_nat file_count @ '' PDFs''
              else if processed_count > 0
              then ''Processed '' @ str_nat file_count @ '' PDFs ('' @ str_nat processed_count
                     @ '' insights)''
              else str_nat file_count @ '' PDFs uploaded - Ready to process''))"

subsection \<open>The data loader\<close>

definition file_map :: "(string \<times> string) list" where
  "file_map =
     [(''ai'', ''nlp_ai_insights.csv''),
      (''domain'', ''nlp_domain_analysis.csv''),
      (''temporal'', ''nlp_temporal_analysis.csv''),
      (''pattern'', ''nlp_pattern_analysis.csv''),
      (''entity'', ''nlp_entity_analysis.csv'')]"

text \<open>
  The loop over \<open>file_map.items()\<close>, filling the dictionary \<open>dataframes\<close>. The listing
  of the directory before the loop only prints, inside its own \<open>try\<close>, and is left out.
\<close>

fun load_loop ::
  "env \<Rightarrow> filesystem \<Rightarrow> string \<Rightarrow> (string \<rightharpoonup> dataframe) \<Rightarrow> (string \<times> string) list
     \<Rightarrow> (string \<rightharpoonup> dataframe)" where
  "load_loop e fs data_path dataframes [] = dataframes"
| "load_loop e fs data_path dataframes ((key, filename) # rest) =
     (let file_path = path_join data_path filename
      in case fs file_path of
           Some content \<Rightarrow>
             (case read_csv e content of
                Some df \<Rightarrow> load_loop e fs data_path (dataframes(key \<mapsto> df)) rest
              | None \<Rightarrow> load_loop e fs data_path (dataframes(key \<mapsto> empty_frame)) rest)
         | None \<Rightarrow> load_loop e fs data_path (dataframes(key \<mapsto> empty_frame)) rest)"

text \<open>\<open>dataframes.get(key, pd.DataFrame())\<close>.\<close>

definition get_frame :: "(string \<rightharpoonup> dataframe) \<Rightarrow> string \<Rightarrow> dataframe" where
  "get_frame dataframes key = (case dataframes key of None \<Rightarrow> empty_frame | Some df \<Rightarrow> df)"

definition load_current_data :: "env \<Rightarrow> manager \<Rightarrow> filesystem \<Rightarrow> frames" where
  "load_current_data e m fs =
     (let data_path = get_current_data_path m;
          dataframes = load_loop e fs data_path Map.empty file_map
      in (get_frame dataframes ''ai'', get_frame dataframes ''domain'',
          get_frame dataframes ''temporal'', get_frame dataframes ''pattern'',
          get_frame dataframes ''entity''))"

subsection \<open>The callbacks that set the mode\<close>

text \<open>
  \<open>update_data_source_indicator\<close>: \<open>triggered\<close> is the list of the \<open>prop_id\<close>s in
  \<open>callback_context.triggered\<close>. After the assignment to \<open>current_mode\<close> the callback
  loads the tables and builds its three outputs. Of these the model keeps the text
  \<open>status\<close>; the indicator and the metric cards are markup, and all they add to the
  behaviour is the \<open>KeyError\<close> of a metric over a table that lacks its column, which
  leaves the callback after the manager has been changed.
\<close>

definition update_data_source_indicator ::
  "env \<Rightarrow> manager \<Rightarrow> filesystem \<Rightarrow> string \<Rightarrow> string list \<Rightarrow> manager \<times> (error + string)" where
  "update_data_source_indicator e m fs data_source triggered =
     (let m1 = (case triggered of
                  [] \<Rightarrow> m
                | prop_id # _ \<Rightarrow>
                    if prop_id = ''reset-default.n_clicks'' then switch_to_default m else m);
          m2 = m1\<lparr>current_mode := data_source\<rparr>
      in case load_current_data e m2 fs of
           (ai, domain, temporal, pattern, entity) \<Rightarrow>
             if data_source = ''default'' then
               (if unique_raises domain ''domain'' \<or> unique_raises temporal ''timeframe''
                then (m2, Inl KeyError)
                else (m2, Inr ''Viewing pre-analyzed sample data''))
             else
               (case current_session_id m2 of
                  None \<Rightarrow> (m2, Inr ''Ready for PDF upload and analysis'')
                | Some i \<Rightarrow>
                    if i = [] then (m2, Inr ''Ready for PDF upload and analysis'')
                    else
                      (let file_count =
                             (case sessions m2 i of
                                None \<Rightarrow> 0
                              | Some s \<Rightarrow> length (uploaded_files s));
                           insights =
                             (case sessions m2 i of
                                None \<Rightarrow> 0
                              | Some s \<Rightarrow> (case insight_count s of None \<Rightarrow> 0 | Some n \<Rightarrow> n))
                       in if unique_raises domain ''domain'' then (m2, Inl KeyError)
                          else (m2, Inr (''Active analysis: '' @ str_nat file_count
                                           @ '' PDFs, '' @ str_nat insights @ '' insights'')))))"

text \<open>
  \<open>handle_file_upload\<close>, with \<open>contents\<close> and \<open>filenames\<close> already lists. The clock is
  read once when the session is created (\<open>now_created\<close>) and once when the files are
  added (\<open>now_updated\<close>). The third component is the exception that leaves the callback,
  if any.
\<close>

definition handle_file_upload ::
  "env \<Rightarrow> string \<Rightarrow> string \<Rightarrow> string \<Rightarrow> manager \<Rightarrow> filesystem \<Rightarrow> string list \<Rightarrow> string list
     \<Rightarrow> string \<Rightarrow> string \<Rightarrow> manager \<times> filesystem \<times> error option" where
  "handle_file_upload e now_created now_updated fresh_id m fs contents filenames
       upload_mode data_source =
     (if contents = [] \<or> filenames = [] then (m, fs, None)
      else
        (let m1 = (if data_source \<noteq> ''user'' then m\<lparr>current_mode := ''user''\<rparr> else m);
             no_current = (case current_session_id m1 of None \<Rightarrow> True | Some i \<Rightarrow> i = [])
         in if upload_mode = ''new'' \<or> no_current
            then (case create_new_session e now_created fresh_id m1 of
                    Inl err \<Rightarrow> (m1, fs, Some err)
                  | Inr (session_id, m2) \<Rightarrow>
                      (case add_files_to_session e now_updated m2 fs session_id
                              contents filenames of
                         (m3, fs3, _) \<Rightarrow> (m3, fs3, None)))
            else (case current_session_id m1 of
                    None \<Rightarrow> (m1, fs, None)
                  | Some session_id \<Rightarrow>
                      (case add_files_to_session e now_updated m1 fs session_id
                              contents filenames of
                         (m3, fs3, _) \<Rightarrow> (m3, fs3, None)))))"

subsection \<open>Auxiliary notions for the statements\<close>

text \<open>
  The three tests an item of the batch passes before the loop of \<open>add_files_to_session\<close>
  reaches \<open>saved_files.append\<close>: the extension, the decoding, the write.
\<close>

definition file_saved :: "env \<Rightarrow> string \<Rightarrow> string \<times> string \<Rightarrow> bool" where
  "file_saved e up item =
     (case item of (content, filename) \<Rightarrow>
        endswith (lower filename) ''.pdf''
        \<and> decode_content e content \<noteq> None
        \<and> \<not> open_wb_error e (path_join up filename))"

text \<open>
  The payload that decides what the file at path \<open>p\<close> holds after the loop: the content of
  the last item of the batch that passes the three tests and is written to \<open>p\<close>, if there
  is one.
\<close>

definition last_saved :: "env \<Rightarrow> string \<Rightarrow> (string \<times> string) list \<Rightarrow> string \<Rightarrow> string option" where
  "last_saved e up items p =
     (let written = filter (\<lambda>item. file_saved e up item \<and> path_join up (snd item) = p) items
      in if written = [] then None else Some (fst (last written)))"

text \<open>
  The specification's reading of one slot of the loader: the table stored at the path, and
  the empty table when the file is missing or does not parse.
\<close>

definition spec_table_or_empty :: "env \<Rightarrow> filesystem \<Rightarrow> string \<Rightarrow> dataframe" where
  "spec_table_or_empty e fs file_path =
     (case fs file_path of
        None \<Rightarrow> empty_frame
      | Some content \<Rightarrow> (case read_csv e content of None \<Rightarrow> empty_frame | Some df \<Rightarrow> df))"

subsection \<open>A concrete run\<close>

text \<open>
  The text that \<open>to_csv(index=False)\<close> writes for a frame of plain words: the line of the
  column names, then one line for each row.
\<close>

definition nl :: string where
  "nl = [CHR 0x0A]"

fun csv_line :: "string list \<Rightarrow> string" where
  "csv_line [] = []"
| "csv_line [c] = c"
| "csv_line (c # cs) = c @ '','' @ csv_line cs"

definition csv_text :: "dataframe \<Rightarrow> bytes" where
  "csv_text df = concat (map (\<lambda>line. csv_line line @ nl) (fst df # snd df))"

text \<open>The five tables that the pipeline of the run builds from three insights.\<close>

definition demo_frames :: frames where
  "demo_frames =
     (([''sentence''], [[''first''], [''second''], [''third'']]),
      ([''domain''], [[''health'']]),
      ([''timeframe''], [[''soon'']]),
      ([''pattern_type''], [[''growth'']]),
      ([''affected_entity''], [[''workers'']]))"

text \<open>
  The environment of the run. On the payloads that occur, \<open>b64decode\<close> has the values of
  \<open>base64.b64decode\<close>: \<open>QUJD\<close> is \<open>ABC\<close>, \<open>REVG\<close> is \<open>DEF\<close>, and the truncated \<open>QUJ\<close> raises
  (incorrect padding). No system call fails. The pipeline finds three insights as soon as
  \<open>a.pdf\<close> is among the uploads, and none before. \<open>read_csv\<close> has the values of pandas on
  the files that occur: the two one-column tables below parse, and a file of no bytes
  raises. What the fields answer on other arguments plays no part in the run.
\<close>

definition demo_env :: env where
  "demo_env =
     \<lparr>NLP_AVAILABLE = True,
      b64decode = (\<lambda>s. if s = ''QUJD'' then Some ''ABC''
                        else if s = ''REVG'' then Some ''DEF''
                        else None),
      open_wb_error = (\<lambda>p. False),
      makedirs_error = (\<lambda>p. False),
      rmtree_error = (\<lambda>p. False),
      process_pdfs = (\<lambda>fs p. if fs (path_join p ''a.pdf'') = None then Inr []
         else Inr [[(''domain'', ''x'')], [(''domain'', ''y'')], [(''domain'', ''z'')]]),
      create_nlp_enhanced_dataframes = (\<lambda>ins. Inr demo_frames),
      to_csv = (\<lambda>df p. Inr (csv_text df)),
      read_csv = (\<lambda>b. if b = ''domain'' @ nl @ ''health'' @ nl
                         then Some ([''domain''], [[''health'']])
                       else if b = ''name'' @ nl @ ''foo'' @ nl
                         then Some ([''name''], [[''foo'']])
                       else None)\<rparr>"

text \<open>An environment in which no directory can be made.\<close>

definition failing_env :: env where
  "failing_env = demo_env\<lparr>makedirs_error := (\<lambda>p. True)\<rparr>"

text \<open>The session that \<open>create_new_session\<close> stores for the identifier \<open>ab12cd34\<close>.\<close>

definition demo_session :: session where
  "demo_session =
     \<lparr>created_at = ''t0'', uploaded_files = [], processed_files = [],
      session_path = ''/project/workspace//user_sessions/session_ab12cd34'',
      upload_path = ''/project/workspace//user_sessions/session_ab12cd34/uploaded_pdfs'',
      processed_path = ''/project/workspace//user_sessions/session_ab12cd34/processed_data'',
      last_updated = None, last_processed = None, insight_count = None\<rparr>"

definition demo_manager :: manager where
  "demo_manager =
     \<lparr>current_mode = ''user'', current_session_id = Some ''ab12cd34'',
      sessions = [''ab12cd34'' \<mapsto> demo_session], has_unprocessed_files = True\<rparr>"

definition demo_fs :: filesystem where
  "demo_fs =
     [''/project/workspace//user_sessions/session_ab12cd34/uploaded_pdfs/a.pdf'' \<mapsto> ''ABC'']"

text \<open>
  The manager after one upload of \<open>a.pdf\<close> into the session, the manager after a run over
  \<open>demo_fs\<close>, and a manager that holds a second, already processed session.
\<close>

definition demo_uploaded :: manager where
  "demo_uploaded =
     fst (add_files_to_session demo_env ''t1'' demo_manager Map.empty ''ab12cd34''
            [''QUJD''] [''a.pdf''])"

definition demo_processed :: manager where
  "demo_processed = fst (process_session_pdfs demo_env ''t1'' demo_manager demo_fs ''ab12cd34'')"

definition other_session :: session where
  "other_session =
     \<lparr>created_at = ''t0'', uploaded_files = [''x.pdf'', ''y.pdf''],
      processed_files = table_files,
      session_path = ''/project/workspace//user_sessions/session_ffffffff'',
      upload_path = ''/project/workspace//user_sessions/session_ffffffff/uploaded_pdfs'',
      processed_path = ''/project/workspace//user_sessions/session_ffffffff/processed_data'',
      last_updated = Some ''t0'', last_processed = Some ''t0'', insight_count = Some 5\<rparr>"

definition demo_two :: manager where
  "demo_two =
     \<lparr>current_mode = ''user'', current_session_id = Some ''ab12cd34'',
      sessions = [''ffffffff'' \<mapsto> other_session, ''ab12cd34'' \<mapsto> demo_session],
      has_unprocessed_files = False\<rparr>"

text \<open>
  Derived files of the session: a table that parses and a file of no bytes, which does
  not; the other three are missing.
\<close>

definition demo_tables :: filesystem where
  "demo_tables =
     [''/project/workspace//user_sessions/session_ab12cd34/processed_data/nlp_domain_analysis.csv''
        \<mapsto> ''domain'' @ nl @ ''health'' @ nl,
      ''/project/workspace//user_sessions/session_ab12cd34/processed_data/nlp_ai_insights.csv''
        \<mapsto> []]"

text \<open>A domain table of the session that has a row but no column \<open>domain\<close>.\<close>

definition bad_tables :: filesystem where
  "bad_tables =
     [''/project/workspace//user_sessions/session_ab12cd34/processed_data/nlp_domain_analysis.csv''
        \<mapsto> ''name'' @ nl @ ''foo'' @ nl]"

section \<open>Properties\<close>

lemmas path_defs =
  path_join_def startswith_def endswith_def USER_SESSIONS_PATH_def BASE_PATH_def
  DEFAULT_DATA_PATH_def

subsection \<open>Session creation\<close>

text \<open>
  C10. \<open>create_new_session\<close> has side effects on the mode: when the two directories can be
  made, it returns the identifier it was given, and afterwards the mode is \<open>user\<close>, the
  current session is the new one, and the flag \<open>has_unprocessed_files\<close> is set although
  the new session has no uploaded file.
\<close>

theorem create_new_session_effects:
  assumes "\<not> makedirs_error e
             (path_join (path_join USER_SESSIONS_PATH (''session_'' @ sid)) ''uploaded_pdfs'')"
    and "\<not> makedirs_error e
             (path_join (path_join USER_SESSIONS_PATH (''session_'' @ sid)) ''processed_data'')"
  shows "\<exists>m'. create_new_session e now sid m = Inr (sid, m')
           \<and> current_mode m' = ''user''
           \<and> current_session_id m' = Some sid
           \<and> has_unprocessed_files m' = True
           \<and> get_session_files m' sid = []"
  using assms by (simp add: create_new_session_def Let_def get_session_files_def)

theorem create_new_session_effects_witness:
  "create_new_session demo_env ''t0'' ''ab12cd34'' init_manager = Inr (''ab12cd34'', demo_manager)
   \<and> current_mode demo_manager = ''user''
   \<and> current_session_id demo_manager = Some ''ab12cd34''
   \<and> has_unprocessed_files demo_manager = True
   \<and> get_session_files demo_manager ''ab12cd34'' = []"
proof -
  have eq: "create_new_session demo_env ''t0'' ''ab12cd34'' init_manager
              = Inr (''ab12cd34'', demo_manager)"
    by (simp add: create_new_session_def demo_env_def demo_manager_def demo_session_def
          init_manager_def path_defs)
  have h1: "\<not> makedirs_error demo_env
     (path_join (path_join USER_SESSIONS_PATH (''session_'' @ ''ab12cd34'')) ''uploaded_pdfs'')"
    by (simp add: demo_env_def)
  have h2: "\<not> makedirs_error demo_env
     (path_join (path_join USER_SESSIONS_PATH (''session_'' @ ''ab12cd34'')) ''processed_data'')"
    by (simp add: demo_env_def)
  from create_new_session_effects [OF h1 h2, of "''t0''" init_manager] eq
  show ?thesis by auto
qed

subsection \<open>Processing\<close>

text \<open>
  C2. When the pipeline is available, the session exists and \<open>process_pdfs\<close> returns the
  empty list, \<open>process_session_pdfs\<close> reports the failure ``No insights extracted from
  PDFs'' and returns the manager and the files exactly as they were: no field of the
  session and no flag changes, and no derived file is written.
\<close>

theorem empty_result_no_change:
  assumes "NLP_AVAILABLE e" and "sessions m sid = Some s"
    and "process_pdfs e fs (upload_path s) = Inr []"
  shows "process_session_pdfs e now m fs sid
           = (m, fs, False, ''No insights extracted from PDFs'')"
  using assms by (simp add: process_session_pdfs_def)

theorem empty_result_no_change_witness:
  "NLP_AVAILABLE demo_env \<and> sessions demo_manager ''ab12cd34'' = Some demo_session
   \<and> process_pdfs demo_env Map.empty (upload_path demo_session) = Inr []
   \<and> process_session_pdfs demo_env ''t1'' demo_manager Map.empty ''ab12cd34'' =
       (demo_manager, Map.empty, False, ''No insights extracted from PDFs'')"
proof -
  have h1: "NLP_AVAILABLE demo_env" by (simp add: demo_env_def)
  have h2: "sessions demo_manager ''ab12cd34'' = Some demo_session"
    by (simp add: demo_manager_def)
  have h3: "process_pdfs demo_env Map.empty (upload_path demo_session) = Inr []"
    by (simp add: demo_env_def)
  from empty_result_no_change [OF h1 h2 h3] h1 h2 h3 show ?thesis by simp
qed

lemma write_frames_all:
  assumes "to_csv e d1 p1 = Inr b1" and "to_csv e d2 p2 = Inr b2" and "to_csv e d3 p3 = Inr b3"
    and "to_csv e d4 p4 = Inr b4" and "to_csv e d5 p5 = Inr b5"
  shows "write_frames e fs [(d1, p1), (d2, p2), (d3, p3), (d4, p4), (d5, p5)]
           = (fs(p1 \<mapsto> b1, p2 \<mapsto> b2, p3 \<mapsto> b3, p4 \<mapsto> b4, p5 \<mapsto> b5), None)"
  using assms by simp

lemma upd_present: "((f(p \<mapsto> v)) q \<noteq> None) = (q = p \<or> f q \<noteq> None)"
  by simp

lemma created_files_all:
  "filter (\<lambda>filename.
       (fs(path_join pp ''nlp_ai_insights.csv'' \<mapsto> b1,
           path_join pp ''nlp_domain_analysis.csv'' \<mapsto> b2,
           path_join pp ''nlp_temporal_analysis.csv'' \<mapsto> b3,
           path_join pp ''nlp_pattern_analysis.csv'' \<mapsto> b4,
           path_join pp ''nlp_entity_analysis.csv'' \<mapsto> b5)) (path_join pp filename) \<noteq> None)
     table_files
   = [''nlp_ai_insights.csv'', ''nlp_domain_analysis.csv'', ''nlp_temporal_analysis.csv'',
      ''nlp_pattern_analysis.csv'', ''nlp_entity_analysis.csv'']"
proof -
  have "filter (\<lambda>filename.
       (fs(path_join pp ''nlp_ai_insights.csv'' \<mapsto> b1,
           path_join pp ''nlp_domain_analysis.csv'' \<mapsto> b2,
           path_join pp ''nlp_temporal_analysis.csv'' \<mapsto> b3,
           path_join pp ''nlp_pattern_analysis.csv'' \<mapsto> b4,
           path_join pp ''nlp_entity_analysis.csv'' \<mapsto> b5)) (path_join pp filename) \<noteq> None)
     table_files = table_files"
  proof (rule filter_True)
    show "\<forall>x \<in> set table_files.
       (fs(path_join pp ''nlp_ai_insights.csv'' \<mapsto> b1,
           path_join pp ''nlp_domain_analysis.csv'' \<mapsto> b2,
           path_join pp ''nlp_temporal_analysis.csv'' \<mapsto> b3,
           path_join pp ''nlp_pattern_analysis.csv'' \<mapsto> b4,
           path_join pp ''nlp_entity_analysis.csv'' \<mapsto> b5)) (path_join pp x) \<noteq> None"
      unfolding table_files_def by (simp add: upd_present del: fun_upd_apply not_None_eq)
  qed
  then show ?thesis unfolding table_files_def .
qed

lemma process_failure_keeps_manager:
  "process_session_pdfs e now m fs sid = (m', fs', False, msg) \<Longrightarrow> m' = m"
  by (auto simp: process_session_pdfs_def Let_def
        split: if_splits option.splits sum.splits prod.splits)

text \<open>
  C3. When the pipeline is available, the session exists, \<open>process_pdfs\<close> returns a
  non-empty list of \<open>n\<close> insights, the five tables are built and the five writes succeed,
  \<open>process_session_pdfs\<close> reports success and returns one new manager in which the session
  has \<open>insight_count = n\<close>, the time of the run as \<open>last_processed\<close>, the five table names
  \<open>nlp_ai_insights.csv\<close>, \<open>nlp_domain_analysis.csv\<close>, \<open>nlp_temporal_analysis.csv\<close>,
  \<open>nlp_pattern_analysis.csv\<close> and \<open>nlp_entity_analysis.csv\<close> as \<open>processed_files\<close>, and in
  which \<open>has_unprocessed_files\<close> is false; the five files are on disk under the processed
  directory of the session, each with the bytes of its own table. The four fields change
  together: by \<open>process_failure_keeps_manager\<close> a run that fails returns the manager
  it was given.
\<close>

theorem successful_run_commit:
  assumes "NLP_AVAILABLE e" and "sessions m sid = Some s"
    and "process_pdfs e fs (upload_path s) = Inr all_insights" and "all_insights \<noteq> []"
    and "create_nlp_enhanced_dataframes e all_insights = Inr (d1, d2, d3, d4, d5)"
    and "to_csv e d1 (path_join (processed_path s) ''nlp_ai_insights.csv'') = Inr b1"
    and "to_csv e d2 (path_join (processed_path s) ''nlp_domain_analysis.csv'') = Inr b2"
    and "to_csv e d3 (path_join (processed_path s) ''nlp_temporal_analysis.csv'') = Inr b3"
    and "to_csv e d4 (path_join (processed_path s) ''nlp_pattern_analysis.csv'') = Inr b4"
    and "to_csv e d5 (path_join (processed_path s) ''nlp_entity_analysis.csv'') = Inr b5"
  shows "process_session_pdfs e now m fs sid =
           (m\<lparr>sessions := (sessions m)(sid \<mapsto>
                 s\<lparr>processed_files :=
                      [''nlp_ai_insights.csv'', ''nlp_domain_analysis.csv'',
                       ''nlp_temporal_analysis.csv'', ''nlp_pattern_analysis.csv'',
                       ''nlp_entity_analysis.csv''],
                   last_processed := Some now,
                   insight_count := Some (length all_insights)\<rparr>),
              has_unprocessed_files := False\<rparr>,
            fs(path_join (processed_path s) ''nlp_ai_insights.csv'' \<mapsto> b1,
               path_join (processed_path s) ''nlp_domain_analysis.csv'' \<mapsto> b2,
               path_join (processed_path s) ''nlp_temporal_analysis.csv'' \<mapsto> b3,
               path_join (processed_path s) ''nlp_pattern_analysis.csv'' \<mapsto> b4,
               path_join (processed_path s) ''nlp_entity_analysis.csv'' \<mapsto> b5),
            True,
            ''Successfully processed '' @ str_nat (length all_insights) @ '' insights'')"
proof -
  note w = write_frames_all [OF assms(6-10), of fs]
  show ?thesis
    unfolding process_session_pdfs_def Let_def
    by (simp only: assms(1-5) w created_files_all
          if_True if_False not_True_eq_False option.case sum.case prod.case simp_thms)
qed

theorem successful_run_commit_witness:
  "case process_session_pdfs demo_env ''t1'' demo_manager demo_fs ''ab12cd34'' of
     (m', fs', ok, msg) \<Rightarrow>
       ok \<and> msg = ''Successfully processed 3 insights''
       \<and> has_unprocessed_files m' = False
       \<and> sessions m' ''ab12cd34'' =
           Some \<lparr>created_at = ''t0'', uploaded_files = [],
                 processed_files =
                   [''nlp_ai_insights.csv'', ''nlp_domain_analysis.csv'',
                    ''nlp_temporal_analysis.csv'', ''nlp_pattern_analysis.csv'',
                    ''nlp_entity_analysis.csv''],
                 session_path = ''/project/workspace//user_sessions/session_ab12cd34'',
                 upload_path =
                   ''/project/workspace//user_sessions/session_ab12cd34/uploaded_pdfs'',
                 processed_path =
                   ''/project/workspace//user_sessions/session_ab12cd34/processed_data'',
                 last_updated = None, last_processed = Some ''t1'',
                 insight_count = Some 3\<rparr>
       \<and> length (processed_files (the (sessions m' ''ab12cd34''))) = 5
       \<and> fs' ''/project/workspace//user_sessions/session_ab12cd34/processed_data/nlp_ai_insights.csv''
           = Some (''sentence'' @ nl @ ''first'' @ nl @ ''second'' @ nl @ ''third'' @ nl)
       \<and> fs' ''/project/workspace//user_sessions/session_ab12cd34/processed_data/nlp_domain_analysis.csv''
           = Some (''domain'' @ nl @ ''health'' @ nl)
       \<and> fs' ''/project/workspace//user_sessions/session_ab12cd34/processed_data/nlp_temporal_analysis.csv''
           = Some (''timeframe'' @ nl @ ''soon'' @ nl)
       \<and> fs' ''/project/workspace//user_sessions/session_ab12cd34/processed_data/nlp_pattern_analysis.csv''
           = Some (''pattern_type'' @ nl @ ''growth'' @ nl)
       \<and> fs' ''/project/workspace//user_sessions/session_ab12cd34/processed_data/nlp_entity_analysis.csv''
           = Some (''affected_entity'' @ nl @ ''workers'' @ nl)"
proof -
  let ?ins = "[[(''domain'', ''x'')], [(''domain'', ''y'')], [(''domain'', ''z'')]]"
  have h1: "NLP_AVAILABLE demo_env" by (simp add: demo_env_def)
  have h2: "sessions demo_manager ''ab12cd34'' = Some demo_session"
    by (simp add: demo_manager_def)
  have h3: "process_pdfs demo_env demo_fs (upload_path demo_session) = Inr ?ins"
    by (simp add: demo_env_def demo_fs_def demo_session_def path_defs)
  have h4: "?ins \<noteq> []" by simp
  have h5: "create_nlp_enhanced_dataframes demo_env ?ins
              = Inr (([''sentence''], [[''first''], [''second''], [''third'']]),
                     ([''domain''], [[''health'']]),
                     ([''timeframe''], [[''soon'']]),
                     ([''pattern_type''], [[''growth'']]),
                     ([''affected_entity''], [[''workers'']]))"
    by (simp add: demo_env_def demo_frames_def)
  have w: "\<And>df p. to_csv demo_env df p = Inr (csv_text df)"
    by (simp add: demo_env_def)
  from successful_run_commit [OF h1 h2 h3 h4 h5 w w w w w, of "''t1''"]
  show ?thesis
    by (simp add: demo_session_def path_defs str_nat.simps csv_text_def)
qed

subsection \<open>Resolving the data path\<close>

text \<open>
  C5. \<open>get_current_data_path\<close> is a total function of the manager: in mode \<open>default\<close> it is
  the shared corpus path; in mode \<open>user\<close> it is the processed-data directory of the current
  session when the identifier is in the store, and the shared corpus path when the
  identifier is absent or not set; after \<open>clear_session\<close> of a session, a manager that
  still (or again) names that session resolves to the shared corpus path.
\<close>

theorem resolve_data_path:
  "(current_mode m = ''default'' \<longrightarrow> get_current_data_path m = DEFAULT_DATA_PATH)
   \<and> (current_mode m = ''user'' \<and> current_session_id m = Some i \<and> sessions m i = Some s
        \<longrightarrow> get_current_data_path m = processed_path s)
   \<and> (current_mode m = ''user'' \<and> current_session_id m = Some i \<and> sessions m i = None
        \<longrightarrow> get_current_data_path m = DEFAULT_DATA_PATH)
   \<and> (current_mode m = ''user'' \<and> current_session_id m = None
        \<longrightarrow> get_current_data_path m = DEFAULT_DATA_PATH)
   \<and> get_current_data_path (fst (clear_session e m fs i)
          \<lparr>current_mode := md, current_session_id := Some i\<rparr>) = DEFAULT_DATA_PATH
   \<and> (current_session_id m = Some i
        \<longrightarrow> get_current_data_path (fst (clear_session e m fs i)) = DEFAULT_DATA_PATH)"
  by (auto simp: get_current_data_path_def clear_session_def Let_def split: option.splits)

theorem resolve_data_path_witness:
  "get_current_data_path init_manager = ''/project/workspace//default_data''
   \<and> get_current_data_path demo_manager
       = ''/project/workspace//user_sessions/session_ab12cd34/processed_data''
   \<and> get_current_data_path (demo_manager\<lparr>sessions := Map.empty\<rparr>)
       = ''/project/workspace//default_data''
   \<and> get_current_data_path (init_manager\<lparr>current_mode := ''user''\<rparr>)
       = ''/project/workspace//default_data''
   \<and> get_current_data_path (fst (clear_session demo_env demo_manager demo_fs ''ab12cd34'')
          \<lparr>current_mode := ''user'', current_session_id := Some ''ab12cd34''\<rparr>)
       = ''/project/workspace//default_data''
   \<and> get_current_data_path (fst (clear_session demo_env demo_manager demo_fs ''ab12cd34''))
       = ''/project/workspace//default_data''"
proof -
  have a: "current_mode init_manager = ''default''" by (simp add: init_manager_def)
  have b: "current_mode demo_manager = ''user'' \<and> current_session_id demo_manager = Some ''ab12cd34''
             \<and> sessions demo_manager ''ab12cd34'' = Some demo_session"
    by (simp add: demo_manager_def)
  have c: "current_mode (demo_manager\<lparr>sessions := Map.empty\<rparr>) = ''user''
             \<and> current_session_id (demo_manager\<lparr>sessions := Map.empty\<rparr>) = Some ''ab12cd34''
             \<and> sessions (demo_manager\<lparr>sessions := Map.empty\<rparr>) ''ab12cd34'' = None"
    by (simp add: demo_manager_def)
  have d: "current_mode (init_manager\<lparr>current_mode := ''user''\<rparr>) = ''user''
             \<and> current_session_id (init_manager\<lparr>current_mode := ''user''\<rparr>) = None"
    by (simp add: init_manager_def)
  have f: "current_session_id demo_manager = Some ''ab12cd34''" by (simp add: demo_manager_def)
  have p: "processed_path demo_session
             = ''/project/workspace//user_sessions/session_ab12cd34/processed_data''"
    by (simp add: demo_session_def)
  have q: "DEFAULT_DATA_PATH = ''/project/workspace//default_data''" by (simp add: path_defs)
  show ?thesis
    using resolve_data_path [where m = init_manager and e = demo_env] a
      resolve_data_path [where m = demo_manager and i = "''ab12cd34''" and s = demo_session
        and e = demo_env and fs = demo_fs and md = "''user''"] b f
      resolve_data_path [where m = "demo_manager\<lparr>sessions := Map.empty\<rparr>"
        and i = "''ab12cd34''" and e = demo_env] c
      resolve_data_path [where m = "init_manager\<lparr>current_mode := ''user''\<rparr>"
        and e = demo_env] d
      p q
    by simp
qed

subsection \<open>The flag for unprocessed files\<close>

lemma add_files_flag:
  "has_unprocessed_files (fst (add_files_to_session e now m fs sid cs fns))
     = (sessions m sid \<noteq> None \<or> has_unprocessed_files m)"
  by (simp add: add_files_to_session_def split: option.splits prod.splits)

lemma add_files_mode:
  "current_mode (fst (add_files_to_session e now m fs sid cs fns)) = current_mode m"
  by (simp add: add_files_to_session_def split: option.splits prod.splits)

lemma process_flag:
  "process_session_pdfs e now m fs sid = (m2, fs2, ok, msg) \<Longrightarrow>
     has_unprocessed_files m2 = (if ok then False else has_unprocessed_files m)"
  by (auto simp: process_session_pdfs_def Let_def
        split: if_splits option.splits sum.splits prod.splits)

lemma demo_run_ok:
  "fst (snd (snd (process_session_pdfs demo_env ''t1'' demo_manager demo_fs ''ab12cd34'')))"
  by (simp add: process_session_pdfs_def demo_env_def demo_manager_def demo_fs_def
        demo_session_def demo_frames_def table_files_def path_defs)

lemma update_indicator_manager:
  "fst (update_data_source_indicator e m fs ds trig) =
     (case trig of
        [] \<Rightarrow> m
      | prop_id # _ \<Rightarrow> if prop_id = ''reset-default.n_clicks'' then switch_to_default m else m)
     \<lparr>current_mode := ds\<rparr>"
  by (simp add: update_data_source_indicator_def Let_def split: prod.splits option.splits)

text \<open>
  C1, as the code has it. The flag \<open>has_unprocessed_files\<close> is set by every call of
  \<open>add_files_to_session\<close> on a session of the store and by \<open>create_new_session\<close>; a run of
  \<open>process_session_pdfs\<close> clears it when it succeeds and leaves it alone when it fails;
  \<open>switch_to_default\<close> (the reset to default) clears it, and so does \<open>clear_session\<close> of the
  current session, while \<open>clear_session\<close> of another session and a change of mode without
  a reset leave it as it is.
\<close>

theorem dirty_flag_transitions:
  "(sessions m sid \<noteq> None \<longrightarrow>
      has_unprocessed_files (fst (add_files_to_session e now m fs sid cs fns)))
   \<and> (create_new_session e now sid m = Inr (r, m1) \<longrightarrow> has_unprocessed_files m1)
   \<and> (process_session_pdfs e now m fs sid = (m2, fs2, ok, msg) \<longrightarrow>
        has_unprocessed_files m2 = (if ok then False else has_unprocessed_files m))
   \<and> \<not> has_unprocessed_files (switch_to_default m)
   \<and> has_unprocessed_files (fst (clear_session e m fs sid))
       = (if current_session_id m = Some sid then False else has_unprocessed_files m)
   \<and> has_unprocessed_files (fst (update_data_source_indicator e m fs ds trig))
       = (if take 1 trig = [''reset-default.n_clicks''] then False else has_unprocessed_files m)"
proof -
  have a: "sessions m sid \<noteq> None \<longrightarrow>
      has_unprocessed_files (fst (add_files_to_session e now m fs sid cs fns))"
    by (simp add: add_files_flag)
  have b: "create_new_session e now sid m = Inr (r, m1) \<longrightarrow> has_unprocessed_files m1"
    by (auto simp: create_new_session_def Let_def split: if_splits)
  have c: "process_session_pdfs e now m fs sid = (m2, fs2, ok, msg) \<longrightarrow>
        has_unprocessed_files m2 = (if ok then False else has_unprocessed_files m)"
    using process_flag by blast
  have d: "\<not> has_unprocessed_files (switch_to_default m)"
    by (simp add: switch_to_default_def)
  have f: "has_unprocessed_files (fst (clear_session e m fs sid))
       = (if current_session_id m = Some sid then False else has_unprocessed_files m)"
    by (simp add: clear_session_def split: option.splits)
  have g: "has_unprocessed_files (fst (update_data_source_indicator e m fs ds trig))
       = (if take 1 trig = [''reset-default.n_clicks''] then False else has_unprocessed_files m)"
    by (cases trig) (simp_all add: update_indicator_manager switch_to_default_def)
  from a b c d f g show ?thesis by blast
qed

theorem dirty_flag_transitions_witness:
  "has_unprocessed_files
     (fst (add_files_to_session demo_env ''t2'' demo_processed demo_fs ''ab12cd34''
             [''QUJD''] [''a.pdf'']))
   \<and> \<not> has_unprocessed_files demo_processed
   \<and> \<not> has_unprocessed_files (switch_to_default demo_manager)
   \<and> \<not> has_unprocessed_files (fst (clear_session demo_env demo_manager demo_fs ''ab12cd34''))
   \<and> has_unprocessed_files (fst (clear_session demo_env demo_manager demo_fs ''ffffffff''))
   \<and> has_unprocessed_files
       (fst (update_data_source_indicator demo_env demo_manager demo_fs ''default''
               [''data-source-toggle.value'']))
   \<and> \<not> has_unprocessed_files
       (fst (update_data_source_indicator demo_env demo_manager demo_fs ''default''
               [''reset-default.n_clicks'']))"
proof -
  let ?r = "process_session_pdfs demo_env ''t1'' demo_manager demo_fs ''ab12cd34''"
  have run: "?r = (demo_processed, fst (snd ?r), True, snd (snd (snd ?r)))"
    using demo_run_ok by (simp add: demo_processed_def prod_eq_iff)
  have flag: "has_unprocessed_files demo_manager" by (simp add: demo_manager_def)
  have cur: "current_session_id demo_manager = Some ''ab12cd34''" by (simp add: demo_manager_def)
  have p: "\<not> has_unprocessed_files demo_processed"
    using dirty_flag_transitions [where m = demo_manager and e = demo_env and now = "''t1''"
        and fs = demo_fs and sid = "''ab12cd34''" and ?m2.0 = demo_processed
        and ?fs2.0 = "fst (snd ?r)" and ok = True and msg = "snd (snd (snd ?r))"] run
    by simp
  have ex: "sessions demo_processed ''ab12cd34'' \<noteq> None"
    by (simp add: demo_processed_def process_session_pdfs_def demo_env_def demo_manager_def
          demo_fs_def demo_session_def demo_frames_def table_files_def path_defs)
  have a: "has_unprocessed_files
     (fst (add_files_to_session demo_env ''t2'' demo_processed demo_fs ''ab12cd34''
             [''QUJD''] [''a.pdf'']))"
    using dirty_flag_transitions [where m = demo_processed and e = demo_env
        and sid = "''ab12cd34''"] ex by blast
  have rest: "\<not> has_unprocessed_files (switch_to_default demo_manager)
   \<and> \<not> has_unprocessed_files (fst (clear_session demo_env demo_manager demo_fs ''ab12cd34''))
   \<and> has_unprocessed_files (fst (clear_session demo_env demo_manager demo_fs ''ffffffff''))
   \<and> has_unprocessed_files
       (fst (update_data_source_indicator demo_env demo_manager demo_fs ''default''
               [''data-source-toggle.value'']))
   \<and> \<not> has_unprocessed_files
       (fst (update_data_source_indicator demo_env demo_manager demo_fs ''default''
               [''reset-default.n_clicks'']))"
    using dirty_flag_transitions [where m = demo_manager and e = demo_env and fs = demo_fs
        and sid = "''ab12cd34''" and ds = "''default''" and trig = "[''data-source-toggle.value'']"]
      dirty_flag_transitions [where m = demo_manager and e = demo_env and fs = demo_fs
        and sid = "''ffffffff''" and ds = "''default''" and trig = "[''reset-default.n_clicks'']"]
      flag cur
    by simp
  from a p rest show ?thesis by blast
qed

text \<open>
  C1 as stated fails: after an upload of \<open>a.pdf\<close> the flag is set, and the reset to default
  clears it although no run has taken place and the session still holds its file.
\<close>

theorem dirty_cleared_by_reset_counterexample:
  "has_unprocessed_files demo_uploaded
   \<and> get_session_files demo_uploaded ''ab12cd34'' = [''a.pdf'']
   \<and> \<not> has_unprocessed_files (switch_to_default demo_uploaded)
   \<and> sessions (switch_to_default demo_uploaded) ''ab12cd34'' = sessions demo_uploaded ''ab12cd34''"
  by (simp add: demo_uploaded_def add_files_to_session_def demo_manager_def demo_session_def
        demo_env_def switch_to_default_def get_session_files_def decode_content_def
        lower_def lower_char_def path_defs)

subsection \<open>Setting the mode\<close>

lemma update_indicator_result:
  "snd (update_data_source_indicator e m fs ds trig) =
     (case load_current_data e (fst (update_data_source_indicator e m fs ds trig)) fs of
        (ai, domain, temporal, pattern, entity) \<Rightarrow>
          if ds = ''default'' then
            (if unique_raises domain ''domain'' \<or> unique_raises temporal ''timeframe''
             then Inl KeyError
             else Inr ''Viewing pre-analyzed sample data'')
          else
            (case current_session_id (fst (update_data_source_indicator e m fs ds trig)) of
               None \<Rightarrow> Inr ''Ready for PDF upload and analysis''
             | Some i \<Rightarrow>
                 if i = [] then Inr ''Ready for PDF upload and analysis''
                 else if unique_raises domain ''domain'' then Inl KeyError
                 else Inr (''Active analysis: ''
                     @ str_nat (case sessions m i of
                                  None \<Rightarrow> 0
                                | Some s \<Rightarrow> length (uploaded_files s))
                     @ '' PDFs, ''
                     @ str_nat (case sessions m i of
                                  None \<Rightarrow> 0
                                | Some s \<Rightarrow> (case insight_count s of None \<Rightarrow> 0 | Some n \<Rightarrow> n))
                     @ '' insights'')))"
proof -
  have s: "sessions (case trig of
                       [] \<Rightarrow> m
                     | prop_id # _ \<Rightarrow>
                         if prop_id = ''reset-default.n_clicks'' then switch_to_default m else m)
             = sessions m"
    by (cases trig) (simp_all add: switch_to_default_def)
  show ?thesis
    unfolding update_indicator_manager
    unfolding update_data_source_indicator_def Let_def
    by (simp add: s split: prod.splits option.splits)
qed

lemma upload_mode_kept:
  "current_mode m' = ''user'' \<Longrightarrow>
     current_mode (fst (case add_files_to_session e now m' fs' sid' contents filenames of
                          (m3, fs3, _) \<Rightarrow> (m3, fs3, None :: error option))) = ''user''"
  using add_files_mode [of e now m' fs' sid' contents filenames] by (simp add: split_beta)

lemma upload_no_error:
  "snd (snd (case add_files_to_session e now m' fs' sid' contents filenames of
               (m3, fs3, _) \<Rightarrow> (m3, fs3, None :: error option))) = None"
  by (simp add: split_beta)

text \<open>
  C4, as the code has it. The callback of the toggle stores the requested mode
  unconditionally: it takes no identifier, does not consult the store, and changes
  nothing else unless the reset was triggered; an upload from outside user mode stores
  mode \<open>user\<close> in the same way. That the current identifier does not resolve shows only
  when the path is resolved: in mode \<open>user\<close>, \<open>get_current_data_path\<close> gives the processed
  directory of the current session if the store has it and the shared corpus path
  otherwise. The assignment itself cannot fail, but both callbacks can raise after it,
  with the mode already stored: \<open>update_data_source_indicator\<close> raises \<open>KeyError\<close>, and
  nothing else, exactly when a metric is taken over a loaded table that is not empty and
  lacks its column (in mode \<open>default\<close> the column \<open>domain\<close> of the domain table or
  \<open>timeframe\<close> of the temporal table; in any other mode the column \<open>domain\<close> of the
  domain table, and only when a session is current); \<open>handle_file_upload\<close> raises
  \<open>OSError\<close>, and nothing else, exactly when it has files, creates a session and one of
  the two directories cannot be made.
\<close>

theorem set_mode_unchecked:
  "current_mode (fst (update_data_source_indicator e m fs ds trig)) = ds
   \<and> sessions (fst (update_data_source_indicator e m fs ds trig)) = sessions m
   \<and> (take 1 trig \<noteq> [''reset-default.n_clicks''] \<longrightarrow>
        fst (update_data_source_indicator e m fs ds trig) = m\<lparr>current_mode := ds\<rparr>)
   \<and> (ds = ''user'' \<longrightarrow>
        get_current_data_path (fst (update_data_source_indicator e m fs ds trig)) =
          (case current_session_id (fst (update_data_source_indicator e m fs ds trig)) of
             None \<Rightarrow> DEFAULT_DATA_PATH
           | Some i \<Rightarrow> (case sessions m i of
                          None \<Rightarrow> DEFAULT_DATA_PATH
                        | Some s \<Rightarrow> processed_path s)))
   \<and> (snd (update_data_source_indicator e m fs ds trig) = Inl KeyError) =
        (case load_current_data e (fst (update_data_source_indicator e m fs ds trig)) fs of
           (ai, domain, temporal, pattern, entity) \<Rightarrow>
             if ds = ''default''
             then unique_raises domain ''domain'' \<or> unique_raises temporal ''timeframe''
             else (case current_session_id
                          (fst (update_data_source_indicator e m fs ds trig)) of
                     None \<Rightarrow> False
                   | Some i \<Rightarrow> i \<noteq> [] \<and> unique_raises domain ''domain''))
   \<and> snd (update_data_source_indicator e m fs ds trig) \<noteq> Inl OSError
   \<and> (data_source \<noteq> ''user'' \<and> contents \<noteq> [] \<and> filenames \<noteq> [] \<longrightarrow>
        current_mode (fst (handle_file_upload e now_created now_updated fresh_id m fs
                             contents filenames upload_mode data_source)) = ''user'')
   \<and> (snd (snd (handle_file_upload e now_created now_updated fresh_id m fs
                   contents filenames upload_mode data_source)) = Some OSError) =
        (contents \<noteq> [] \<and> filenames \<noteq> []
         \<and> (upload_mode = ''new''
              \<or> (case current_session_id m of None \<Rightarrow> True | Some i \<Rightarrow> i = []))
         \<and> (makedirs_error e
               (path_join (path_join USER_SESSIONS_PATH (''session_'' @ fresh_id))
                  ''uploaded_pdfs'')
              \<or> makedirs_error e
                   (path_join (path_join USER_SESSIONS_PATH (''session_'' @ fresh_id))
                      ''processed_data'')))
   \<and> snd (snd (handle_file_upload e now_created now_updated fresh_id m fs
                  contents filenames upload_mode data_source)) \<noteq> Some KeyError"
proof -
  let ?U = "update_data_source_indicator e m fs ds trig"
  let ?H = "handle_file_upload e now_created now_updated fresh_id m fs
              contents filenames upload_mode data_source"
  have a: "current_mode (fst ?U) = ds"
    by (simp add: update_indicator_manager)
  have b: "sessions (fst ?U) = sessions m"
    by (cases trig) (simp_all add: update_indicator_manager switch_to_default_def)
  have c: "take 1 trig \<noteq> [''reset-default.n_clicks''] \<longrightarrow> fst ?U = m\<lparr>current_mode := ds\<rparr>"
    by (cases trig) (simp_all add: update_indicator_manager)
  have d: "ds = ''user'' \<longrightarrow>
        get_current_data_path (fst ?U) =
          (case current_session_id (fst ?U) of
             None \<Rightarrow> DEFAULT_DATA_PATH
           | Some i \<Rightarrow> (case sessions m i of
                          None \<Rightarrow> DEFAULT_DATA_PATH
                        | Some s \<Rightarrow> processed_path s))"
    using a b by (auto simp: get_current_data_path_def split: option.splits)
  have k: "(snd ?U = Inl KeyError) =
        (case load_current_data e (fst ?U) fs of
           (ai, domain, temporal, pattern, entity) \<Rightarrow>
             if ds = ''default''
             then unique_raises domain ''domain'' \<or> unique_raises temporal ''timeframe''
             else (case current_session_id (fst ?U) of
                     None \<Rightarrow> False
                   | Some i \<Rightarrow> i \<noteq> [] \<and> unique_raises domain ''domain''))"
    by (subst update_indicator_result) (simp split: prod.splits option.splits)
  have l: "snd ?U \<noteq> Inl OSError"
    by (subst update_indicator_result) (simp split: prod.splits option.splits)
  have f: "data_source \<noteq> ''user'' \<and> contents \<noteq> [] \<and> filenames \<noteq> [] \<longrightarrow>
        current_mode (fst ?H) = ''user''"
    by (auto simp: handle_file_upload_def Let_def create_new_session_def upload_mode_kept
          split: option.splits sum.splits)
  have g: "(snd (snd ?H) = Some OSError) =
        (contents \<noteq> [] \<and> filenames \<noteq> []
         \<and> (upload_mode = ''new''
              \<or> (case current_session_id m of None \<Rightarrow> True | Some i \<Rightarrow> i = []))
         \<and> (makedirs_error e
               (path_join (path_join USER_SESSIONS_PATH (''session_'' @ fresh_id))
                  ''uploaded_pdfs'')
              \<or> makedirs_error e
                   (path_join (path_join USER_SESSIONS_PATH (''session_'' @ fresh_id))
                      ''processed_data'')))"
    by (auto simp: handle_file_upload_def Let_def create_new_session_def upload_no_error
          split: option.splits sum.splits if_splits)
  have h: "snd (snd ?H) \<noteq> Some KeyError"
    by (auto simp: handle_file_upload_def Let_def create_new_session_def upload_no_error
          split: option.splits sum.splits if_splits)
  from a b c d k l f g h show ?thesis by blast
qed

theorem set_mode_unchecked_witness:
  "fst (update_data_source_indicator demo_env init_manager Map.empty ''user''
          [''data-source-toggle.value''])
     = init_manager\<lparr>current_mode := ''user''\<rparr>
   \<and> get_current_data_path
        (fst (update_data_source_indicator demo_env init_manager Map.empty ''user''
                [''data-source-toggle.value'']))
      = ''/project/workspace//default_data''
   \<and> get_current_data_path
        (fst (update_data_source_indicator demo_env demo_manager demo_tables ''user''
                [''data-source-toggle.value'']))
      = ''/project/workspace//user_sessions/session_ab12cd34/processed_data''
   \<and> snd (update_data_source_indicator demo_env demo_manager demo_tables ''user''
             [''data-source-toggle.value'']) \<noteq> Inl KeyError
   \<and> snd (update_data_source_indicator demo_env demo_manager bad_tables ''user''
             [''data-source-toggle.value'']) = Inl KeyError
   \<and> current_mode (fst (handle_file_upload demo_env ''t0'' ''t1'' ''ab12cd34'' init_manager
                           Map.empty [''QUJD''] [''a.pdf''] ''new'' ''default'')) = ''user''
   \<and> snd (snd (handle_file_upload demo_env ''t0'' ''t1'' ''ab12cd34'' init_manager
                  Map.empty [''QUJD''] [''a.pdf''] ''new'' ''default'')) \<noteq> Some OSError
   \<and> current_mode (fst (handle_file_upload failing_env ''t0'' ''t1'' ''ab12cd34'' init_manager
                           Map.empty [''QUJD''] [''a.pdf''] ''new'' ''default'')) = ''user''
   \<and> snd (snd (handle_file_upload failing_env ''t0'' ''t1'' ''ab12cd34'' init_manager
                  Map.empty [''QUJD''] [''a.pdf''] ''new'' ''default'')) = Some OSError"
proof -
  let ?tg = "[''data-source-toggle.value'']"
  have t: "take 1 ?tg \<noteq> [''reset-default.n_clicks'']" by simp
  note i = set_mode_unchecked [where m = init_manager and ds = "''user''" and trig = ?tg
      and e = demo_env and fs = Map.empty and now_created = "''t0''" and now_updated = "''t1''"
      and fresh_id = "''ab12cd34''" and contents = "[''QUJD'']"
      and filenames = "[''a.pdf'']" and upload_mode = "''new''" and data_source = "''default''"]
  note d = set_mode_unchecked [where m = demo_manager and ds = "''user''" and trig = ?tg
      and e = demo_env and fs = demo_tables]
  note b = set_mode_unchecked [where m = demo_manager and ds = "''user''" and trig = ?tg
      and e = demo_env and fs = bad_tables]
  note x = set_mode_unchecked [where m = init_manager and e = failing_env and fs = Map.empty
      and now_created = "''t0''" and now_updated = "''t1''"
      and fresh_id = "''ab12cd34''" and contents = "[''QUJD'']"
      and filenames = "[''a.pdf'']" and upload_mode = "''new''" and data_source = "''default''"]
  have i1: "fst (update_data_source_indicator demo_env init_manager Map.empty ''user'' ?tg)
     = init_manager\<lparr>current_mode := ''user''\<rparr>"
    using i [THEN conjunct2, THEN conjunct2, THEN conjunct1] t by (rule mp)
  have i2: "get_current_data_path
        (fst (update_data_source_indicator demo_env init_manager Map.empty ''user'' ?tg))
      = ''/project/workspace//default_data''"
  proof -
    have "get_current_data_path
            (fst (update_data_source_indicator demo_env init_manager Map.empty ''user'' ?tg))
          = (case current_session_id
                    (fst (update_data_source_indicator demo_env init_manager Map.empty
                            ''user'' ?tg)) of
               None \<Rightarrow> DEFAULT_DATA_PATH
             | Some i \<Rightarrow> (case sessions init_manager i of
                            None \<Rightarrow> DEFAULT_DATA_PATH
                          | Some s \<Rightarrow> processed_path s))"
      using i [THEN conjunct2, THEN conjunct2, THEN conjunct2, THEN conjunct1] by simp
    then show ?thesis unfolding i1 by (simp add: init_manager_def path_defs)
  qed
  have d1: "fst (update_data_source_indicator demo_env demo_manager demo_tables ''user'' ?tg)
     = demo_manager\<lparr>current_mode := ''user''\<rparr>"
    using d [THEN conjunct2, THEN conjunct2, THEN conjunct1] t by (rule mp)
  have d2: "get_current_data_path
        (fst (update_data_source_indicator demo_env demo_manager demo_tables ''user'' ?tg))
      = ''/project/workspace//user_sessions/session_ab12cd34/processed_data''"
  proof -
    have "get_current_data_path
            (fst (update_data_source_indicator demo_env demo_manager demo_tables ''user'' ?tg))
          = (case current_session_id
                    (fst (update_data_source_indicator demo_env demo_manager demo_tables
                            ''user'' ?tg)) of
               None \<Rightarrow> DEFAULT_DATA_PATH
             | Some i \<Rightarrow> (case sessions demo_manager i of
                            None \<Rightarrow> DEFAULT_DATA_PATH
                          | Some s \<Rightarrow> processed_path s))"
      using d [THEN conjunct2, THEN conjunct2, THEN conjunct2, THEN conjunct1] by simp
    then show ?thesis unfolding d1 by (simp add: demo_manager_def demo_session_def)
  qed
  have ld: "load_current_data demo_env (demo_manager\<lparr>current_mode := ''user''\<rparr>) demo_tables
              = (empty_frame, ([''domain''], [[''health'']]), empty_frame, empty_frame,
                 empty_frame)"
    by (simp add: load_current_data_def file_map_def get_frame_def get_current_data_path_def
          demo_manager_def demo_session_def demo_tables_def demo_env_def nl_def path_defs)
  have d3: "snd (update_data_source_indicator demo_env demo_manager demo_tables ''user'' ?tg)
              \<noteq> Inl KeyError"
  proof -
    have "(snd (update_data_source_indicator demo_env demo_manager demo_tables ''user'' ?tg)
             = Inl KeyError) =
        (case load_current_data demo_env
                (fst (update_data_source_indicator demo_env demo_manager demo_tables
                        ''user'' ?tg)) demo_tables of
           (ai, domain, temporal, pattern, entity) \<Rightarrow>
             if ''user'' = ''default''
             then unique_raises domain ''domain'' \<or> unique_raises temporal ''timeframe''
             else (case current_session_id
                          (fst (update_data_source_indicator demo_env demo_manager
                                  demo_tables ''user'' ?tg)) of
                     None \<Rightarrow> False
                   | Some i \<Rightarrow> i \<noteq> [] \<and> unique_raises domain ''domain''))"
      using d [THEN conjunct2, THEN conjunct2, THEN conjunct2, THEN conjunct2, THEN conjunct1] by simp
    then show ?thesis unfolding d1 ld
      by (simp add: demo_manager_def unique_raises_def frame_empty_def)
  qed
  have b1: "fst (update_data_source_indicator demo_env demo_manager bad_tables ''user'' ?tg)
     = demo_manager\<lparr>current_mode := ''user''\<rparr>"
    using b [THEN conjunct2, THEN conjunct2, THEN conjunct1] t by (rule mp)
  have lb: "load_current_data demo_env (demo_manager\<lparr>current_mode := ''user''\<rparr>) bad_tables
              = (empty_frame, ([''name''], [[''foo'']]), empty_frame, empty_frame, empty_frame)"
    by (simp add: load_current_data_def file_map_def get_frame_def get_current_data_path_def
          demo_manager_def demo_session_def bad_tables_def demo_env_def nl_def path_defs)
  have b3: "snd (update_data_source_indicator demo_env demo_manager bad_tables ''user'' ?tg)
              = Inl KeyError"
  proof -
    have "(snd (update_data_source_indicator demo_env demo_manager bad_tables ''user'' ?tg)
             = Inl KeyError) =
        (case load_current_data demo_env
                (fst (update_data_source_indicator demo_env demo_manager bad_tables
                        ''user'' ?tg)) bad_tables of
           (ai, domain, temporal, pattern, entity) \<Rightarrow>
             if ''user'' = ''default''
             then unique_raises domain ''domain'' \<or> unique_raises temporal ''timeframe''
             else (case current_session_id
                          (fst (update_data_source_indicator demo_env demo_manager
                                  bad_tables ''user'' ?tg)) of
                     None \<Rightarrow> False
                   | Some i \<Rightarrow> i \<noteq> [] \<and> unique_raises domain ''domain''))"
      using b [THEN conjunct2, THEN conjunct2, THEN conjunct2, THEN conjunct2, THEN conjunct1] by simp
    then show ?thesis unfolding b1 lb
      by (simp add: demo_manager_def unique_raises_def frame_empty_def)
  qed
  have u1: "current_mode (fst (handle_file_upload demo_env ''t0'' ''t1'' ''ab12cd34''
              init_manager Map.empty [''QUJD''] [''a.pdf''] ''new'' ''default'')) = ''user''"
    using i [THEN conjunct2, THEN conjunct2, THEN conjunct2, THEN conjunct2, THEN conjunct2, THEN conjunct2, THEN conjunct1] by simp
  have u2: "snd (snd (handle_file_upload demo_env ''t0'' ''t1'' ''ab12cd34'' init_manager
                  Map.empty [''QUJD''] [''a.pdf''] ''new'' ''default'')) \<noteq> Some OSError"
  proof -
    have "(snd (snd (handle_file_upload demo_env ''t0'' ''t1'' ''ab12cd34'' init_manager
                  Map.empty [''QUJD''] [''a.pdf''] ''new'' ''default'')) = Some OSError) =
        ([''QUJD''] \<noteq> [] \<and> [''a.pdf''] \<noteq> []
         \<and> (''new'' = ''new''
              \<or> (case current_session_id init_manager of None \<Rightarrow> True | Some i \<Rightarrow> i = []))
         \<and> (makedirs_error demo_env
               (path_join (path_join USER_SESSIONS_PATH (''session_'' @ ''ab12cd34''))
                  ''uploaded_pdfs'')
              \<or> makedirs_error demo_env
                   (path_join (path_join USER_SESSIONS_PATH (''session_'' @ ''ab12cd34''))
                      ''processed_data'')))"
      using i [THEN conjunct2, THEN conjunct2, THEN conjunct2, THEN conjunct2, THEN conjunct2, THEN conjunct2, THEN conjunct2, THEN conjunct1] .
    then show ?thesis by (simp add: demo_env_def)
  qed
  have x1: "current_mode (fst (handle_file_upload failing_env ''t0'' ''t1'' ''ab12cd34''
              init_manager Map.empty [''QUJD''] [''a.pdf''] ''new'' ''default'')) = ''user''"
    using x [THEN conjunct2, THEN conjunct2, THEN conjunct2, THEN conjunct2, THEN conjunct2, THEN conjunct2, THEN conjunct1] by simp
  have x2: "snd (snd (handle_file_upload failing_env ''t0'' ''t1'' ''ab12cd34'' init_manager
                  Map.empty [''QUJD''] [''a.pdf''] ''new'' ''default'')) = Some OSError"
  proof -
    have "(snd (snd (handle_file_upload failing_env ''t0'' ''t1'' ''ab12cd34'' init_manager
                  Map.empty [''QUJD''] [''a.pdf''] ''new'' ''default'')) = Some OSError) =
        ([''QUJD''] \<noteq> [] \<and> [''a.pdf''] \<noteq> []
         \<and> (''new'' = ''new''
              \<or> (case current_session_id init_manager of None \<Rightarrow> True | Some i \<Rightarrow> i = []))
         \<and> (makedirs_error failing_env
               (path_join (path_join USER_SESSIONS_PATH (''session_'' @ ''ab12cd34''))
                  ''uploaded_pdfs'')
              \<or> makedirs_error failing_env
                   (path_join (path_join USER_SESSIONS_PATH (''session_'' @ ''ab12cd34''))
                      ''processed_data'')))"
      using x [THEN conjunct2, THEN conjunct2, THEN conjunct2, THEN conjunct2, THEN conjunct2, THEN conjunct2, THEN conjunct2, THEN conjunct1] .
    then show ?thesis by (simp add: failing_env_def)
  qed
  from i1 i2 d2 d3 b3 u1 u2 x1 x2 show ?thesis by blast
qed

text \<open>
  C4 as stated fails on both counts. In the initial manager no session is current, and
  the toggle to \<open>user\<close> stores mode \<open>user\<close>, not \<open>default\<close>. And the callbacks that set the
  mode do raise: the toggle with a domain table that has a row but no column \<open>domain\<close>
  ends in \<open>KeyError\<close>, and an upload when no directory can be made ends in \<open>OSError\<close>.
\<close>

theorem set_mode_no_fallback_counterexample:
  "current_session_id init_manager = None
   \<and> current_mode
        (fst (update_data_source_indicator demo_env init_manager Map.empty ''user''
                [''data-source-toggle.value'']))
      = ''user''
   \<and> current_session_id
        (fst (update_data_source_indicator demo_env init_manager Map.empty ''user''
                [''data-source-toggle.value'']))
      = None
   \<and> snd (update_data_source_indicator demo_env init_manager Map.empty ''user''
             [''data-source-toggle.value''])
      = Inr ''Ready for PDF upload and analysis''
   \<and> update_data_source_indicator demo_env demo_manager bad_tables ''user''
        [''data-source-toggle.value'']
      = (demo_manager, Inl KeyError)
   \<and> handle_file_upload failing_env ''t0'' ''t1'' ''ab12cd34'' init_manager Map.empty
        [''QUJD''] [''a.pdf''] ''new'' ''default''
      = (init_manager\<lparr>current_mode := ''user''\<rparr>, Map.empty, Some OSError)"
proof -
  let ?tg = "[''data-source-toggle.value'']"
  have a: "current_session_id init_manager = None" by (simp add: init_manager_def)
  have i: "update_data_source_indicator demo_env init_manager Map.empty ''user'' ?tg
             = (init_manager\<lparr>current_mode := ''user''\<rparr>,
                Inr ''Ready for PDF upload and analysis'')"
    by (simp add: update_data_source_indicator_def init_manager_def split: prod.splits)
  have lb: "load_current_data demo_env demo_manager bad_tables
              = (empty_frame, ([''name''], [[''foo'']]), empty_frame, empty_frame, empty_frame)"
    by (simp add: load_current_data_def file_map_def get_frame_def get_current_data_path_def
          demo_manager_def demo_session_def bad_tables_def demo_env_def nl_def path_defs)
  have m: "demo_manager\<lparr>current_mode := ''user''\<rparr> = demo_manager"
    by (simp add: demo_manager_def)
  have b: "update_data_source_indicator demo_env demo_manager bad_tables ''user'' ?tg
             = (demo_manager, Inl KeyError)"
    unfolding update_data_source_indicator_def Let_def
    by (simp add: m lb) (simp add: demo_manager_def unique_raises_def frame_empty_def)
  have x: "handle_file_upload failing_env ''t0'' ''t1'' ''ab12cd34'' init_manager Map.empty
        [''QUJD''] [''a.pdf''] ''new'' ''default''
      = (init_manager\<lparr>current_mode := ''user''\<rparr>, Map.empty, Some OSError)"
    by (simp add: handle_file_upload_def create_new_session_def failing_env_def)
  from a i b x show ?thesis by simp
qed

subsection \<open>One flag for all sessions\<close>

lemma add_files_other_session:
  "a \<noteq> b \<Longrightarrow> sessions (fst (add_files_to_session e now m fs a cs fns)) b = sessions m b"
  by (simp add: add_files_to_session_def split: option.splits prod.splits)

lemma process_other_session:
  "a \<noteq> b \<Longrightarrow> sessions (fst (process_session_pdfs e now m fs a)) b = sessions m b"
  by (simp add: process_session_pdfs_def Let_def
        split: option.splits sum.splits prod.splits)

text \<open>
  C9. The flag is one field of the manager, not of a session. With two sessions \<open>a\<close> and
  \<open>b\<close> in the store, any call of \<open>add_files_to_session\<close> on \<open>a\<close> makes the status reported
  for \<open>b\<close> the ``Ready to process'' text of the dirty state, and a successful run on \<open>a\<close>
  clears the flag, so that the status reported for \<open>b\<close> is one of the two texts of the
  clean state.
\<close>

theorem unprocessed_flag_shared:
  assumes "sessions m a = Some sa" and "sessions m b = Some sb" and "a \<noteq> b"
  shows "get_processing_status (fst (add_files_to_session e now m fs a cs fns)) b
           = ''Ready to process '' @ str_nat (length (uploaded_files sb)) @ '' PDFs''
         \<and> (process_session_pdfs e now m fs a = (m2, fs2, True, msg) \<longrightarrow>
              \<not> has_unprocessed_files m2
              \<and> get_processing_status m2 b
                  = (if 0 < (case insight_count sb of None \<Rightarrow> 0 | Some n \<Rightarrow> n)
                     then ''Processed '' @ str_nat (length (uploaded_files sb)) @ '' PDFs (''
                            @ str_nat (case insight_count sb of None \<Rightarrow> 0 | Some n \<Rightarrow> n)
                            @ '' insights)''
                     else str_nat (length (uploaded_files sb))
                            @ '' PDFs uploaded - Ready to process''))"
proof (intro conjI impI)
  have "sessions (fst (add_files_to_session e now m fs a cs fns)) b = Some sb"
    using assms by (simp add: add_files_other_session)
  moreover have "has_unprocessed_files (fst (add_files_to_session e now m fs a cs fns))"
    using assms(1) by (simp add: add_files_flag)
  ultimately show "get_processing_status (fst (add_files_to_session e now m fs a cs fns)) b
           = ''Ready to process '' @ str_nat (length (uploaded_files sb)) @ '' PDFs''"
    by (simp add: get_processing_status_def)
next
  assume run: "process_session_pdfs e now m fs a = (m2, fs2, True, msg)"
  then show clean: "\<not> has_unprocessed_files m2"
    using process_flag by fastforce
  have "sessions m2 b = Some sb"
    using process_other_session [OF assms(3), of e now m fs] run assms(2) by simp
  then show "get_processing_status m2 b
                  = (if 0 < (case insight_count sb of None \<Rightarrow> 0 | Some n \<Rightarrow> n)
                     then ''Processed '' @ str_nat (length (uploaded_files sb)) @ '' PDFs (''
                            @ str_nat (case insight_count sb of None \<Rightarrow> 0 | Some n \<Rightarrow> n)
                            @ '' insights)''
                     else str_nat (length (uploaded_files sb))
                            @ '' PDFs uploaded - Ready to process'')"
    using clean by (simp add: get_processing_status_def Let_def)
qed

theorem unprocessed_flag_shared_witness:
  "\<not> has_unprocessed_files demo_two
   \<and> get_processing_status demo_two ''ffffffff'' = ''Processed 2 PDFs (5 insights)''
   \<and> get_processing_status
        (fst (add_files_to_session demo_env ''t1'' demo_two Map.empty ''ab12cd34''
                [''QUJD''] [''a.pdf''])) ''ffffffff''
       = ''Ready to process 2 PDFs''
   \<and> get_processing_status
        (fst (process_session_pdfs demo_env ''t1''
                (demo_two\<lparr>has_unprocessed_files := True\<rparr>) demo_fs ''ab12cd34'')) ''ffffffff''
       = ''Processed 2 PDFs (5 insights)''"
proof -
  let ?m = "demo_two\<lparr>has_unprocessed_files := True\<rparr>"
  let ?r = "process_session_pdfs demo_env ''t1'' ?m demo_fs ''ab12cd34''"
  have h1: "sessions demo_two ''ab12cd34'' = Some demo_session" by (simp add: demo_two_def)
  have h2: "sessions demo_two ''ffffffff'' = Some other_session" by (simp add: demo_two_def)
  have h3: "''ab12cd34'' \<noteq> ''ffffffff''" by simp
  have k1: "sessions ?m ''ab12cd34'' = Some demo_session" by (simp add: demo_two_def)
  have k2: "sessions ?m ''ffffffff'' = Some other_session" by (simp add: demo_two_def)
  have ok: "fst (snd (snd ?r))"
    by (simp add: process_session_pdfs_def demo_env_def demo_two_def demo_fs_def
          demo_session_def demo_frames_def table_files_def path_defs)
  have run: "?r = (fst ?r, fst (snd ?r), True, snd (snd (snd ?r)))"
    using ok by (simp add: prod_eq_iff)
  have n: "str_nat 2 = ''2''" "str_nat 5 = ''5''" "str_nat (Suc (Suc 0)) = ''2''"
    by (simp_all add: str_nat.simps)
  have a: "\<not> has_unprocessed_files demo_two" by (simp add: demo_two_def)
  have b: "get_processing_status demo_two ''ffffffff'' = ''Processed 2 PDFs (5 insights)''"
    by (simp add: get_processing_status_def demo_two_def other_session_def n)
  have c: "get_processing_status
        (fst (add_files_to_session demo_env ''t1'' demo_two Map.empty ''ab12cd34''
                [''QUJD''] [''a.pdf''])) ''ffffffff''
       = ''Ready to process 2 PDFs''"
    using unprocessed_flag_shared [OF h1 h2 h3, of demo_env "''t1''" Map.empty
        "[''QUJD'']" "[''a.pdf'']"]
    by (simp add: other_session_def n)
  have d: "get_processing_status (fst ?r) ''ffffffff'' = ''Processed 2 PDFs (5 insights)''"
    using unprocessed_flag_shared [OF k1 k2 h3, where e = demo_env and now = "''t1''"
        and fs = demo_fs and ?m2.0 = "fst ?r" and ?fs2.0 = "fst (snd ?r)"
        and msg = "snd (snd (snd ?r))"] run
    by (simp add: other_session_def n)
  from a b c d show ?thesis by blast
qed

subsection \<open>Loading the tables\<close>

lemma load_loop_step:
  "load_loop e fs data_path dataframes ((key, filename) # rest)
     = load_loop e fs data_path
         (dataframes(key \<mapsto> spec_table_or_empty e fs (path_join data_path filename))) rest"
  by (simp add: spec_table_or_empty_def split: option.splits)

text \<open>
  C8. \<open>load_current_data\<close> is total and returns five tables: each slot is the table parsed
  from its own file under the resolved path, or the empty table when that file is
  missing or does not parse, whatever happens to the other four.
\<close>

theorem load_never_fails:
  "load_current_data e m fs =
     (spec_table_or_empty e fs (path_join (get_current_data_path m) ''nlp_ai_insights.csv''),
      spec_table_or_empty e fs (path_join (get_current_data_path m) ''nlp_domain_analysis.csv''),
      spec_table_or_empty e fs (path_join (get_current_data_path m) ''nlp_temporal_analysis.csv''),
      spec_table_or_empty e fs (path_join (get_current_data_path m) ''nlp_pattern_analysis.csv''),
      spec_table_or_empty e fs (path_join (get_current_data_path m) ''nlp_entity_analysis.csv''))"
  unfolding load_current_data_def Let_def file_map_def
  by (simp add: load_loop_step get_frame_def del: load_loop.simps(2))

theorem load_never_fails_witness:
  "load_current_data demo_env demo_manager demo_tables
     = (([], []), ([''domain''], [[''health'']]), ([], []), ([], []), ([], []))"
  using load_never_fails [of demo_env demo_manager demo_tables]
  by (simp add: spec_table_or_empty_def get_current_data_path_def demo_manager_def
        demo_session_def demo_tables_def demo_env_def empty_frame_def nl_def path_defs)

subsection \<open>Ingestion\<close>






lemma last_saved_drop:
  "\<not> file_saved e up item \<Longrightarrow>
     last_saved e up (xs @ item # ys) p = last_saved e up (xs @ ys) p"
  by (simp add: last_saved_def)



















end
